theory Spec2Isabelle
  imports Main
begin

section \<open>The syntax trees of go/ast, as far as gen-mocks reads and builds them\<close>

text \<open>
  gen-mocks exists in two variants: \<^verbatim>\<open>gen_mocks.go\<close>, which selects the interfaces whose
  name ends in \<^verbatim>\<open>Service\<close>, and a second file, which selects them with a regular expression.
  Definitions of the second file keep the source's names; those of \<^verbatim>\<open>gen_mocks.go\<close> that differ
  carry the suffix \<open>_svc\<close>.

  The second variant changes parameter lists in place (\<^verbatim>\<open>f.Names = ...\<close>), and the struct field
  and the method built for one interface method both point to the method's one
  \<^verbatim>\<open>*ast.FuncType\<close> node. So the \<^verbatim>\<open>*ast.FuncType\<close> nodes live in a store, and the trees
  hold references to them.
\<close>

type_synonym ref = nat

datatype Token = TokIMPORT | TokCONST | TokTYPE | TokVAR

datatype Expr =
    Ident string
  | StarExpr Expr
  | SelectorExpr Expr string
  | Ellipsis Expr
  | ArrayType Expr
  | CallExpr Expr "Expr list"
  | FuncTypeP ref
  | StructType "Field list"
  | InterfaceType "Field list"
and Field = Field (Names: "string list") (Type: Expr)

record FuncType =
  Params :: "Field list"
  Results :: "Field list"

type_synonym heap = "ref \<Rightarrow> FuncType"

datatype TypeSpec = TypeSpec (Name: string) (SpecType: Expr) (Filename: string)

datatype Spec = TypeSpecS TypeSpec | ImportSpec string | ValueSpec "string list"

datatype Decl =
    GenDecl Token "Spec list"
  | FuncDecl (Recv: "Field list") (FuncName: string) (FuncTypeOf: ref) (Body: "Stmt list")
and Stmt =
    ReturnStmt "Expr list"
  | ExprStmt Expr
  | DeclStmt Decl
  | BlockStmt "Stmt list"
  | IfStmt Expr "Stmt list" "Stmt list"
  | ForStmt "Stmt list"

record File =
  PkgIdent :: string
  Decls :: "Decl list"

record Package =
  PkgName :: string
  Files :: "File list"

datatype error = Error string | Panic string

section \<open>Parameter names\<close>

text \<open>Decimal digits of a natural number, as \<^verbatim>\<open>%d\<close> of \<^verbatim>\<open>fmt.Sprintf\<close> prints a slice index.\<close>

definition digit :: "nat \<Rightarrow> char" where
  "digit d = ''0123456789'' ! d"

function itoa :: "nat \<Rightarrow> string" where
  "itoa n = (if n < 10 then [digit n] else itoa (n div 10) @ [digit (n mod 10)])"
  by pat_completeness auto
termination
  by (relation "measure id") auto

declare itoa.simps [simp del]

text \<open>
  \<^verbatim>\<open>
  func synthesizeFieldNamesIfMissing(fl *ast.FieldList) {
      for i, f := range fl.List {
          if len(f.Names) == 0 {
              f.Names = []*ast.Ident{ast.NewIdent(fmt.Sprintf("v%d", i))}
          }
      }
  }
  \<close>
  On the value of the field list; the caller stores the result back into the node.
\<close>

definition synthesizeFieldNamesIfMissing :: "Field list \<Rightarrow> Field list" where
  "synthesizeFieldNamesIfMissing fl =
     map (\<lambda>(i, f). if length (Names f) = 0 then Field [''v'' @ itoa i] (Type f) else f)
         (enumerate 0 fl)"

text \<open>
  \<^verbatim>\<open>
  func fieldListToIdentList(fl *ast.FieldList) []ast.Expr {
      var fs []ast.Expr
      for _, f := range fl.List {
          for _, name := range f.Names {
              fs = append(fs, ast.NewIdent(name.Name))
          }
      }
      return fs
  }
  \<close>
\<close>

definition fieldListToIdentList :: "Field list \<Rightarrow> Expr list" where
  "fieldListToIdentList fl = concat (map (\<lambda>f. map Ident (Names f)) fl)"

section \<open>The declarations of one mock\<close>

text \<open>
  The first loop of \<^verbatim>\<open>writeMockImplFiles\<close> (the same text in both variants):
  \<^verbatim>\<open>
  var methFields []*ast.Field
  for _, methField := range iface.Type.(*ast.InterfaceType).Methods.List {
      if meth, ok := methField.Type.(*ast.FuncType); ok {
          methFields = append(methFields, &ast.Field{
              Names: []*ast.Ident{ast.NewIdent(methField.Names[0].Name + "_")},
              Type:  meth,
          })
      }
  }
  \<close>
  \<^verbatim>\<open>methField.Names[0]\<close> panics on an entry without a name.
\<close>

fun methFieldsOf :: "Field list \<Rightarrow> error + Field list" where
  "methFieldsOf [] = Inr []"
| "methFieldsOf (methField # rest) =
     (case Type methField of
        FuncTypeP meth \<Rightarrow>
          (case Names methField of
             [] \<Rightarrow> Inl (Panic ''index out of range'')
           | name # _ \<Rightarrow>
               (case methFieldsOf rest of
                  Inl e \<Rightarrow> Inl e
                | Inr methFields \<Rightarrow> Inr (Field [name @ ''_''] (FuncTypeP meth) # methFields)))
      | _ \<Rightarrow> methFieldsOf rest)"

text \<open>The method declaration both variants build for the method \<open>name\<close> of type \<open>meth\<close>.\<close>

definition delegate :: "string \<Rightarrow> string \<Rightarrow> ref \<Rightarrow> Field list \<Rightarrow> Decl" where
  "delegate mockTypeName name meth params =
     FuncDecl [Field [''s''] (StarExpr (Ident mockTypeName))] name meth
       [ReturnStmt [CallExpr (SelectorExpr (Ident ''s'') (name @ ''_''))
                             (fieldListToIdentList params)]]"

text \<open>
  The second loop, in the variant with the regular expression: it names the unnamed
  parameters in the node \<open>meth\<close> before it reads them.
  \<^verbatim>\<open>
  for _, methField := range iface.Type.(*ast.InterfaceType).Methods.List {
      if meth, ok := methField.Type.(*ast.FuncType); ok {
          synthesizeFieldNamesIfMissing(meth.Params)
          decls = append(decls, &ast.FuncDecl{
              Recv: ..., Name: ast.NewIdent(methField.Names[0].Name), Type: meth,
              Body: ... Args: fieldListToIdentList(meth.Params) ...
  \<close>
\<close>

fun methDecls :: "string \<Rightarrow> Field list \<Rightarrow> heap \<Rightarrow> error + (Decl list \<times> heap)" where
  "methDecls mockTypeName [] h = Inr ([], h)"
| "methDecls mockTypeName (methField # rest) h =
     (case Type methField of
        FuncTypeP meth \<Rightarrow>
          (let h1 = h(meth := (h meth)\<lparr>Params := synthesizeFieldNamesIfMissing (Params (h meth))\<rparr>)
           in case Names methField of
                [] \<Rightarrow> Inl (Panic ''index out of range'')
              | name # _ \<Rightarrow>
                  (case methDecls mockTypeName rest h1 of
                     Inl e \<Rightarrow> Inl e
                   | Inr (decls, h2) \<Rightarrow>
                       Inr (delegate mockTypeName name meth (Params (h1 meth)) # decls, h2)))
      | _ \<Rightarrow> methDecls mockTypeName rest h)"

text \<open>The second loop in \<^verbatim>\<open>gen_mocks.go\<close>: the same without the call that names parameters.\<close>

fun methDecls_svc :: "string \<Rightarrow> Field list \<Rightarrow> heap \<Rightarrow> error + Decl list" where
  "methDecls_svc mockTypeName [] h = Inr []"
| "methDecls_svc mockTypeName (methField # rest) h =
     (case Type methField of
        FuncTypeP meth \<Rightarrow>
          (case Names methField of
             [] \<Rightarrow> Inl (Panic ''index out of range'')
           | name # _ \<Rightarrow>
               (case methDecls_svc mockTypeName rest h of
                  Inl e \<Rightarrow> Inl e
                | Inr decls \<Rightarrow> Inr (delegate mockTypeName name meth (Params (h meth)) # decls)))
      | _ \<Rightarrow> methDecls_svc mockTypeName rest h)"

text \<open>
  The struct type of the mock:
  \<^verbatim>\<open>
  mockTypeName := "Mock" + iface.Name.Name
  implType := &ast.GenDecl{Tok: token.TYPE, Specs: []ast.Spec{&ast.TypeSpec{
      Name: ast.NewIdent(mockTypeName),
      Type: &ast.StructType{Fields: &ast.FieldList{List: methFields}},
  }}}
  \<close>
  The new node has no position, hence no file name.
\<close>

definition implType :: "string \<Rightarrow> Field list \<Rightarrow> Decl" where
  "implType mockTypeName methFields =
     GenDecl TokTYPE [TypeSpecS (TypeSpec mockTypeName (StructType methFields) [])]"

text \<open>
  \<open>decls\<close> as the loop body has it before it builds the file. The type assertion
  \<^verbatim>\<open>iface.Type.(*ast.InterfaceType)\<close> panics on any other type.
\<close>

definition mockDecls :: "TypeSpec \<Rightarrow> heap \<Rightarrow> error + (Decl list \<times> heap)" where
  "mockDecls iface h =
     (case SpecType iface of
        InterfaceType methods \<Rightarrow>
          (case methFieldsOf methods of
             Inl e \<Rightarrow> Inl e
           | Inr methFields \<Rightarrow>
               (let mockTypeName = ''Mock'' @ Name iface
                in case methDecls mockTypeName methods h of
                     Inl e \<Rightarrow> Inl e
                   | Inr (decls, h') \<Rightarrow> Inr (implType mockTypeName methFields # decls, h')))
      | _ \<Rightarrow> Inl (Panic ''interface conversion''))"

definition mockDecls_svc :: "TypeSpec \<Rightarrow> heap \<Rightarrow> error + Decl list" where
  "mockDecls_svc iface h =
     (case SpecType iface of
        InterfaceType methods \<Rightarrow>
          (case methFieldsOf methods of
             Inl e \<Rightarrow> Inl e
           | Inr methFields \<Rightarrow>
               (let mockTypeName = ''Mock'' @ Name iface
                in case methDecls_svc mockTypeName methods h of
                     Inl e \<Rightarrow> Inl e
                   | Inr decls \<Rightarrow> Inr (implType mockTypeName methFields # decls)))
      | _ \<Rightarrow> Inl (Panic ''interface conversion''))"

section \<open>The world outside: file system, streams, the printer and the import resolver\<close>

text \<open>
  What the operating system and the libraries answer is a parameter of the model. An
  answer \<open>Some e\<close> (or \<open>Inl e\<close>) is the error the call returns.
\<close>

datatype Writer = FileW string | Stdout

record env =
  MkdirAll :: "string \<Rightarrow> error option"
  Create :: "string \<Rightarrow> error option"
  WriteErr :: "Writer \<Rightarrow> string \<Rightarrow> error option"
  Fprint :: "heap \<Rightarrow> File \<Rightarrow> error + string"
  Process :: "string \<Rightarrow> string \<Rightarrow> error + string"
  AddImport :: "string \<Rightarrow> File \<Rightarrow> File"
  Base :: "string \<Rightarrow> string"
  Join :: "string \<Rightarrow> string \<Rightarrow> string"
  Quote :: "string \<Rightarrow> string"
  Compile :: "string \<Rightarrow> error + (string \<Rightarrow> bool)"
  ParseDir :: "string \<Rightarrow> error + Package list"

text \<open>
  The state the program changes: the \<^verbatim>\<open>*ast.FuncType\<close> nodes, the lines of the standard
  logger (package \<^verbatim>\<open>log\<close> writes to standard error; \<^verbatim>\<open>main\<close> never redirects it), the bytes
  on standard output, the files and the directories created.
\<close>

record world =
  nodes :: heap
  logOut :: "string list"
  stdout :: string
  files :: "string \<rightharpoonup> string"
  dirs :: "string set"

definition HasSuffix :: "string \<Rightarrow> string \<Rightarrow> bool" where
  "HasSuffix s suffix \<longleftrightarrow>
     length s \<ge> length suffix \<and> drop (length s - length suffix) s = suffix"

definition TrimSuffix :: "string \<Rightarrow> string \<Rightarrow> string" where
  "TrimSuffix s suffix = (if HasSuffix s suffix then take (length s - length suffix) s else s)"

text \<open>
  \<^verbatim>\<open>bytes.Replace(s, old, new, -1)\<close> for a non-empty \<open>old\<close>: every occurrence, from the left,
  without overlap. gen-mocks calls it with one constant \<open>old\<close>; for an empty \<open>old\<close>
  (never passed) this definition returns \<open>s\<close>.
\<close>

function Replace :: "string \<Rightarrow> string \<Rightarrow> string \<Rightarrow> string" where
  "Replace s old new =
     (if s = [] \<or> old = [] then s
      else if take (length old) s = old then new @ Replace (drop (length old) s) old new
      else hd s # Replace (tl s) old new)"
  by pat_completeness auto
termination
  by (relation "measure (\<lambda>(s, old, new). length s)") auto

declare Replace.simps [simp del]

text \<open>
  \<^verbatim>\<open>w.Write(src)\<close>: a write that fails leaves nothing behind here; a write to a file
  appends to what the file holds.
\<close>

definition Write :: "env \<Rightarrow> Writer \<Rightarrow> string \<Rightarrow> world \<Rightarrow> error option \<times> world" where
  "Write env wr src w =
     (case WriteErr env wr src of
        Some e \<Rightarrow> (Some e, w)
      | None \<Rightarrow>
          (case wr of
             Stdout \<Rightarrow> (None, w\<lparr>stdout := stdout w @ src\<rparr>)
           | FileW path \<Rightarrow>
               (None, w\<lparr>files := (files w)(path \<mapsto>
                          (case files w path of None \<Rightarrow> src | Some c \<Rightarrow> c @ src))\<rparr>)))"

section \<open>writeMockImplFiles\<close>

text \<open>
  \<^verbatim>\<open>
  filename := fset.Position(iface.Pos()).Filename
  filename = filepath.Join(outDir, strings.TrimSuffix(filepath.Base(filename), ".go")+"_mock.go")
  \<close>
\<close>

definition outFilename :: "env \<Rightarrow> string \<Rightarrow> TypeSpec \<Rightarrow> string" where
  "outFilename env outDir iface =
     Join env outDir (TrimSuffix (Base env (Filename iface)) ''.go'' @ ''_mock.go'')"

text \<open>
  The rest of the loop body, the same text in both variants:
  \<^verbatim>\<open>
  log.Println("#", filename)
  var w io.Writer
  if *writeFiles {
      f, err := os.Create(filename)
      if err != nil {
          return err
      }
      defer f.Close()
      w = f
  } else {
      w = os.Stdout
  }
  var buf bytes.Buffer
  if err := printer.Fprint(&buf, fset, file); err != nil {
      return err
  }
  // Always put blank lines between funcs.
  src := bytes.Replace(buf.Bytes(), []byte("}\nfunc"), []byte("}\n\nfunc"), -1)
  var err error
  src, err = imports.Process(filename, src, nil)
  if err != nil {
      return err
  }
  w.Write(src)
  \<close>
  \<^verbatim>\<open>os.Create\<close> truncates the file. What \<^verbatim>\<open>w.Write\<close> returns is dropped.
\<close>

definition emit :: "env \<Rightarrow> bool \<Rightarrow> string \<Rightarrow> File \<Rightarrow> world \<Rightarrow> error option \<times> world" where
  "emit env writeFiles filename file w0 =
     (let w1 = w0\<lparr>logOut := logOut w0 @ [''# '' @ filename]\<rparr> in
      case (if writeFiles
            then (case Create env filename of
                    Some e \<Rightarrow> Inl e
                  | None \<Rightarrow> Inr (FileW filename, w1\<lparr>files := (files w1)(filename \<mapsto> [])\<rparr>))
            else Inr (Stdout, w1)) of
        Inl e \<Rightarrow> (Some e, w1)
      | Inr (wr, w2) \<Rightarrow>
          (case Fprint env (nodes w2) file of
             Inl e \<Rightarrow> (Some e, w2)
           | Inr buf \<Rightarrow>
               (let src = Replace buf (''}'' @ [CHR 0x0A] @ ''func'')
                                      (''}'' @ [CHR 0x0A, CHR 0x0A] @ ''func'')
                in case Process env filename src of
                     Inl e \<Rightarrow> (Some e, w2)
                   | Inr src' \<Rightarrow> (None, snd (Write env wr src' w2)))))"

text \<open>One round of the loop over \<open>svcIfaces\<close>, in the variant with the regular expression.\<close>

definition writeMockImplFile ::
  "env \<Rightarrow> bool \<Rightarrow> string \<Rightarrow> string \<Rightarrow> TypeSpec \<Rightarrow> world \<Rightarrow> error option \<times> world" where
  "writeMockImplFile env writeFiles outDir outPkg iface w =
     (case mockDecls iface (nodes w) of
        Inl e \<Rightarrow> (Some e, w)
      | Inr (decls, h') \<Rightarrow>
          emit env writeFiles (outFilename env outDir iface)
            \<lparr>PkgIdent = outPkg, Decls = decls\<rparr> (w\<lparr>nodes := h'\<rparr>))"

text \<open>
  One round in \<^verbatim>\<open>gen_mocks.go\<close>, which also calls
  \<^verbatim>\<open>astutil.AddImport(fset, file, *importPath)\<close> on the file it has built.
\<close>

definition writeMockImplFile_svc ::
  "env \<Rightarrow> bool \<Rightarrow> string \<Rightarrow> string \<Rightarrow> string \<Rightarrow> TypeSpec \<Rightarrow> world \<Rightarrow> error option \<times> world" where
  "writeMockImplFile_svc env writeFiles importPath outDir pkgName iface w =
     (case mockDecls_svc iface (nodes w) of
        Inl e \<Rightarrow> (Some e, w)
      | Inr decls \<Rightarrow>
          emit env writeFiles (outFilename env outDir iface)
            (AddImport env importPath \<lparr>PkgIdent = pkgName, Decls = decls\<rparr>) w)"

text \<open>The loop: the first error (or panic) ends it.\<close>

fun forIfaces ::
  "(TypeSpec \<Rightarrow> world \<Rightarrow> error option \<times> world) \<Rightarrow> TypeSpec list \<Rightarrow> world \<Rightarrow> error option \<times> world" where
  "forIfaces body [] w = (None, w)"
| "forIfaces body (iface # rest) w =
     (case body iface w of
        (Some e, w') \<Rightarrow> (Some e, w')
      | (None, w') \<Rightarrow> forIfaces body rest w')"

text \<open>
  \<^verbatim>\<open>
  func writeMockImplFiles(outDir, outPkg string, svcIfaces []*ast.TypeSpec) error {
      if err := os.MkdirAll(outDir, 0700); err != nil {
          return err
      }
      for _, iface := range svcIfaces { ... }
      return nil
  }
  \<close>
\<close>

definition writeMockImplFiles ::
  "env \<Rightarrow> bool \<Rightarrow> string \<Rightarrow> string \<Rightarrow> TypeSpec list \<Rightarrow> world \<Rightarrow> error option \<times> world" where
  "writeMockImplFiles env writeFiles outDir outPkg svcIfaces w =
     (case MkdirAll env outDir of
        Some e \<Rightarrow> (Some e, w)
      | None \<Rightarrow>
          forIfaces (writeMockImplFile env writeFiles outDir outPkg) svcIfaces
            (w\<lparr>dirs := insert outDir (dirs w)\<rparr>))"

definition writeMockImplFiles_svc ::
  "env \<Rightarrow> bool \<Rightarrow> string \<Rightarrow> string \<Rightarrow> string \<Rightarrow> TypeSpec list \<Rightarrow> world \<Rightarrow> error option \<times> world" where
  "writeMockImplFiles_svc env writeFiles importPath outDir pkgName svcIfaces w =
     (case MkdirAll env outDir of
        Some e \<Rightarrow> (Some e, w)
      | None \<Rightarrow>
          forIfaces (writeMockImplFile_svc env writeFiles importPath outDir pkgName) svcIfaces
            (w\<lparr>dirs := insert outDir (dirs w)\<rparr>))"

section \<open>Selecting the interfaces\<close>

text \<open>
  What the function given to \<^verbatim>\<open>ast.Walk\<close> does at a \<^verbatim>\<open>*ast.GenDecl\<close> whose token is
  \<^verbatim>\<open>token.TYPE\<close>; \<open>pat\<close> stands for \<^verbatim>\<open>pat.MatchString\<close>:
  \<^verbatim>\<open>
  for _, spec := range node.Specs {
      tspec := spec.(*ast.TypeSpec)
      if _, ok := tspec.Type.(*ast.InterfaceType); !ok {
          continue
      }
      if name := tspec.Name.Name; pat.MatchString(name) {
          ifaces = append(ifaces, tspec)
      }
  }
  \<close>
\<close>

fun forSpecs :: "(string \<Rightarrow> bool) \<Rightarrow> Spec list \<Rightarrow> TypeSpec list \<Rightarrow> error + TypeSpec list" where
  "forSpecs pat [] ifaces = Inr ifaces"
| "forSpecs pat (spec # rest) ifaces =
     (case spec of
        TypeSpecS tspec \<Rightarrow>
          (case SpecType tspec of
             InterfaceType _ \<Rightarrow>
               (if pat (Name tspec) then forSpecs pat rest (ifaces @ [tspec])
                else forSpecs pat rest ifaces)
           | _ \<Rightarrow> forSpecs pat rest ifaces)
      | _ \<Rightarrow> Inl (Panic ''interface conversion''))"

text \<open>
  \<^verbatim>\<open>ast.Walk\<close> with that function: at a \<^verbatim>\<open>*ast.GenDecl\<close> the function returns false and the
  walk does not descend; at every other node it returns true and the walk goes on into
  the children, in source order. Of the children only those that can hold a declaration
  are followed here: the body of a function, and the statements inside statements.
\<close>

fun WalkDecl :: "(string \<Rightarrow> bool) \<Rightarrow> Decl \<Rightarrow> TypeSpec list \<Rightarrow> error + TypeSpec list"
  and WalkStmt :: "(string \<Rightarrow> bool) \<Rightarrow> Stmt \<Rightarrow> TypeSpec list \<Rightarrow> error + TypeSpec list"
  and WalkStmts :: "(string \<Rightarrow> bool) \<Rightarrow> Stmt list \<Rightarrow> TypeSpec list \<Rightarrow> error + TypeSpec list" where
  "WalkDecl pat (GenDecl tok specs) ifaces =
     (if tok = TokTYPE then forSpecs pat specs ifaces else Inr ifaces)"
| "WalkDecl pat (FuncDecl recv name ty body) ifaces = WalkStmts pat body ifaces"
| "WalkStmt pat (ReturnStmt results) ifaces = Inr ifaces"
| "WalkStmt pat (ExprStmt x) ifaces = Inr ifaces"
| "WalkStmt pat (DeclStmt decl) ifaces = WalkDecl pat decl ifaces"
| "WalkStmt pat (BlockStmt list) ifaces = WalkStmts pat list ifaces"
| "WalkStmt pat (IfStmt cond body els) ifaces =
     (case WalkStmts pat body ifaces of
        Inl e \<Rightarrow> Inl e
      | Inr ifaces' \<Rightarrow> WalkStmts pat els ifaces')"
| "WalkStmt pat (ForStmt body) ifaces = WalkStmts pat body ifaces"
| "WalkStmts pat [] ifaces = Inr ifaces"
| "WalkStmts pat (stmt # rest) ifaces =
     (case WalkStmt pat stmt ifaces of
        Inl e \<Rightarrow> Inl e
      | Inr ifaces' \<Rightarrow> WalkStmts pat rest ifaces')"

fun WalkDecls :: "(string \<Rightarrow> bool) \<Rightarrow> Decl list \<Rightarrow> TypeSpec list \<Rightarrow> error + TypeSpec list" where
  "WalkDecls pat [] ifaces = Inr ifaces"
| "WalkDecls pat (decl # rest) ifaces =
     (case WalkDecl pat decl ifaces of
        Inl e \<Rightarrow> Inl e
      | Inr ifaces' \<Rightarrow> WalkDecls pat rest ifaces')"

fun WalkFiles :: "(string \<Rightarrow> bool) \<Rightarrow> File list \<Rightarrow> TypeSpec list \<Rightarrow> error + TypeSpec list" where
  "WalkFiles pat [] ifaces = Inr ifaces"
| "WalkFiles pat (f # rest) ifaces =
     (case WalkDecls pat (Decls f) ifaces of
        Inl e \<Rightarrow> Inl e
      | Inr ifaces' \<Rightarrow> WalkFiles pat rest ifaces')"

text \<open>
  \<^verbatim>\<open>readIfaces(pkg, pat)\<close>, and \<^verbatim>\<open>readServiceInterfaces(pkg)\<close> of \<^verbatim>\<open>gen_mocks.go\<close>, which
  tests \<^verbatim>\<open>strings.HasSuffix(name, "Service")\<close> where the former matches the pattern. The files
  of the package are a list, in the order in which the walk meets them.
\<close>

definition readIfaces :: "Package \<Rightarrow> (string \<Rightarrow> bool) \<Rightarrow> error + TypeSpec list" where
  "readIfaces pkg pat = WalkFiles pat (Files pkg) []"


section \<open>main, in the variant with the regular expression\<close>

record flags =
  ifacePkgDir :: string
  ifacePat :: string
  writeFiles :: bool
  outDir :: string

text \<open>
  \<^verbatim>\<open>log.Fatal(err)\<close> prints the error through the logger and ends the process; a panic ends
  it without the logger.
\<close>

definition Fatal :: "error \<Rightarrow> world \<Rightarrow> error option \<times> world" where
  "Fatal e w =
     (Some e, case e of Error msg \<Rightarrow> w\<lparr>logOut := logOut w @ [msg]\<rparr> | Panic _ \<Rightarrow> w)"

text \<open>
  \<^verbatim>\<open>
  for _, pkg := range pkgs {
      ifaces, err := readIfaces(pkg, pat)
      if err != nil {
          log.Fatal(err)
      }
      if len(ifaces) == 0 {
          log.Printf("warning: package has no interface types matching %q", *ifacePat)
          continue
      }
      if err := writeMockImplFiles(*outDir, pkg.Name, ifaces); err != nil {
          log.Fatal(err)
      }
  }
  \<close>
\<close>

fun forPkgs ::
  "env \<Rightarrow> flags \<Rightarrow> (string \<Rightarrow> bool) \<Rightarrow> Package list \<Rightarrow> world \<Rightarrow> error option \<times> world" where
  "forPkgs env fl pat [] w = (None, w)"
| "forPkgs env fl pat (pkg # rest) w =
     (case readIfaces pkg pat of
        Inl e \<Rightarrow> Fatal e w
      | Inr ifaces \<Rightarrow>
          (if length ifaces = 0
           then forPkgs env fl pat rest
                  (w\<lparr>logOut := logOut w @
                     [''warning: package has no interface types matching '' @
                      Quote env (ifacePat fl)]\<rparr>)
           else (case writeMockImplFiles env (writeFiles fl) (outDir fl) (PkgName pkg) ifaces w of
                   (Some e, w') \<Rightarrow> Fatal e w'
                 | (None, w') \<Rightarrow> forPkgs env fl pat rest w')))"

text \<open>
  \<^verbatim>\<open>
  pat, err := regexp.Compile(*ifacePat)
  if err != nil {
      log.Fatal(err)
  }
  pkgs, err := parser.ParseDir(fset, *ifacePkgDir, nil, parser.AllErrors)
  if err != nil {
      log.Fatal(err)
  }
  \<close>
  The packages are a list, in the order in which \<^verbatim>\<open>range\<close> meets them.
\<close>

definition main :: "env \<Rightarrow> flags \<Rightarrow> world \<Rightarrow> error option \<times> world" where
  "main env fl w =
     (case Compile env (ifacePat fl) of
        Inl e \<Rightarrow> Fatal e w
      | Inr pat \<Rightarrow>
          (case ParseDir env (ifacePkgDir fl) of
             Inl e \<Rightarrow> Fatal e w
           | Inr pkgs \<Rightarrow> forPkgs env fl pat pkgs w))"

section \<open>Notions for stating the properties\<close>

text \<open>
  An entry of an interface's method list is a method when its type is a function type;
  \<open>methRef\<close> is then its \<^verbatim>\<open>*ast.FuncType\<close> node. \<open>named\<close> is a function type after
  \<open>synthesizeFieldNamesIfMissing\<close> has run on its parameters. \<open>NumFields\<close> counts the
  parameters a field list declares, as \<^verbatim>\<open>(*ast.FieldList).NumFields\<close> does: a group
  without names declares one.
\<close>

definition isFuncField :: "Field \<Rightarrow> bool" where
  "isFuncField f = (case Type f of FuncTypeP _ \<Rightarrow> True | _ \<Rightarrow> False)"

definition methRef :: "Field \<Rightarrow> ref" where
  "methRef f = (case Type f of FuncTypeP r \<Rightarrow> r | _ \<Rightarrow> 0)"

definition named :: "FuncType \<Rightarrow> FuncType" where
  "named ft = ft\<lparr>Params := synthesizeFieldNamesIfMissing (Params ft)\<rparr>"


subsection \<open>Examples\<close>

text \<open>
  The interface \<^verbatim>\<open>type Checker interface { Check(bool) error }\<close> of a file
  \<^verbatim>\<open>check.go\<close>, with the method's function type at node 0.
\<close>

definition Checker :: TypeSpec where
  "Checker = TypeSpec ''Checker'' (InterfaceType [Field [''Check''] (FuncTypeP 0)]) ''check.go''"

definition noNodes :: heap where
  "noNodes = (\<lambda>_. \<lparr>Params = [], Results = []\<rparr>)"

definition CheckerNodes :: heap where
  "CheckerNodes =
     noNodes(0 := \<lparr>Params = [Field [] (Ident ''bool'')], Results = [Field [] (Ident ''error'')]\<rparr>)"

text \<open>
  Every parameter group of every method of the interface has a name in the store \<open>h\<close>.
\<close>

definition paramsNamed :: "heap \<Rightarrow> TypeSpec \<Rightarrow> bool" where
  "paramsNamed h iface =
     (case SpecType iface of
        InterfaceType ms \<Rightarrow>
          list_all (\<lambda>m. case Type m of
                           FuncTypeP meth \<Rightarrow> list_all (\<lambda>p. Names p \<noteq> []) (Params (h meth))
                         | _ \<Rightarrow> True) ms
      | _ \<Rightarrow> True)"

text \<open>
  The interface \<^verbatim>\<open>type ReadCloser interface { io.Reader; Close() error }\<close> of a file
  \<^verbatim>\<open>rc.go\<close>: its first entry embeds an interface and has no function type. The
  function type of \<^verbatim>\<open>Close\<close> is at node 1, beside the node of \<open>Checker\<close>.
\<close>

definition ReadCloser :: TypeSpec where
  "ReadCloser =
     TypeSpec ''ReadCloser''
       (InterfaceType [Field [] (SelectorExpr (Ident ''io'') ''Reader''),
                       Field [''Close''] (FuncTypeP 1)])
       ''rc.go''"

definition ReadCloserNodes :: heap where
  "ReadCloserNodes = CheckerNodes(1 := \<lparr>Params = [], Results = [Field [] (Ident ''error'')]\<rparr>)"

text \<open>
  The interface \<^verbatim>\<open>type Fetcher interface { Get(id string) (string, error) }\<close> of a file
  \<^verbatim>\<open>fetch.go\<close>, with the function type of \<^verbatim>\<open>Get\<close> at node 2, beside the nodes above.
\<close>

definition Fetcher :: TypeSpec where
  "Fetcher = TypeSpec ''Fetcher'' (InterfaceType [Field [''Get''] (FuncTypeP 2)]) ''fetch.go''"

definition FetcherNodes :: heap where
  "FetcherNodes =
     ReadCloserNodes(2 := \<lparr>Params = [Field [''id''] (Ident ''string'')],
                              Results = [Field [] (Ident ''string''), Field [] (Ident ''error'')]\<rparr>)"

text \<open>
  Two packages for the examples: one whose only interface is declared inside a
  function,
  \<^verbatim>\<open>func f() { type LocalService interface{} }\<close>, and one that declares \<open>Checker\<close>.
\<close>

definition LocalPkg :: Package where
  "LocalPkg =
     \<lparr>PkgName = ''p'',
      Files = [\<lparr>PkgIdent = ''p'',
                Decls = [FuncDecl [] ''f'' 3
                           [DeclStmt (GenDecl TokTYPE
                              [TypeSpecS (TypeSpec ''LocalService'' (InterfaceType []) ''p.go'')])]]\<rparr>]\<rparr>"

definition CheckerPkg :: Package where
  "CheckerPkg =
     \<lparr>PkgName = ''check'',
      Files = [\<lparr>PkgIdent = ''check'', Decls = [GenDecl TokTYPE [TypeSpecS Checker]]\<rparr>]\<rparr>"

text \<open>
  A world for the examples: every call succeeds, paths are joined with a slash, the
  printer prints the package clause only, the import resolver changes nothing,
  \<^verbatim>\<open>AddImport\<close> puts the import declaration first, a pattern \<^verbatim>\<open>^name$\<close> matches the
  name it spells and no other, and the directory holds the two packages above. In
  \<open>diskFull\<close> every write fails.
\<close>

definition exampleEnv :: env where
  "exampleEnv =
     \<lparr>MkdirAll = (\<lambda>_. None),
      Create = (\<lambda>_. None),
      WriteErr = (\<lambda>_ _. None),
      Fprint = (\<lambda>h file. Inr (''package '' @ PkgIdent file @ [CHR 0x0A])),
      Process = (\<lambda>_ src. Inr src),
      AddImport = (\<lambda>path file. file\<lparr>Decls := GenDecl TokIMPORT [ImportSpec path] # Decls file\<rparr>),
      Base = (\<lambda>path. path),
      Join = (\<lambda>dir name. dir @ ''/'' @ name),
      Quote = (\<lambda>s. [CHR 0x22] @ s @ [CHR 0x22]),
      Compile = (\<lambda>expr. Inr (\<lambda>name. expr = ''^'' @ name @ ''$'')),
      ParseDir = (\<lambda>_. Inr [LocalPkg, CheckerPkg])\<rparr>"

definition diskFull :: env where
  "diskFull = exampleEnv\<lparr>WriteErr := \<lambda>_ _. Some (Error ''no space left on device'')\<rparr>"

definition exampleFlags :: flags where
  "exampleFlags =
     \<lparr>ifacePkgDir = ''.'', ifacePat = ''^Checker$'', writeFiles = False, outDir = ''out''\<rparr>"

definition world0 :: "heap \<Rightarrow> world" where
  "world0 h = \<lparr>nodes = h, logOut = [], stdout = [], files = Map.empty, dirs = {}\<rparr>"

text \<open>
  The specs of the type declarations the walk can reach from a declaration: its own when
  it is a type declaration, and those of the declaration statements in its body, at any
  depth of blocks and of \<^verbatim>\<open>if\<close> and \<^verbatim>\<open>for\<close> statements, when it is a function.
\<close>

fun typeSpecs :: "Decl \<Rightarrow> Spec list"
  and typeSpecsStmt :: "Stmt \<Rightarrow> Spec list"
  and typeSpecsStmts :: "Stmt list \<Rightarrow> Spec list" where
  "typeSpecs (GenDecl tok specs) = (if tok = TokTYPE then specs else [])"
| "typeSpecs (FuncDecl recv name ty body) = typeSpecsStmts body"
| "typeSpecsStmt (ReturnStmt results) = []"
| "typeSpecsStmt (ExprStmt x) = []"
| "typeSpecsStmt (DeclStmt decl) = typeSpecs decl"
| "typeSpecsStmt (BlockStmt list) = typeSpecsStmts list"
| "typeSpecsStmt (IfStmt cond body els) = typeSpecsStmts body @ typeSpecsStmts els"
| "typeSpecsStmt (ForStmt body) = typeSpecsStmts body"
| "typeSpecsStmts [] = []"
| "typeSpecsStmts (stmt # rest) = typeSpecsStmt stmt @ typeSpecsStmts rest"

definition typeSpecsOf :: "Package \<Rightarrow> Spec list" where
  "typeSpecsOf pkg = concat (map (\<lambda>f. concat (map typeSpecs (Decls f))) (Files pkg))"

definition isInterface :: "TypeSpec \<Rightarrow> bool" where
  "isInterface tspec = (case SpecType tspec of InterfaceType _ \<Rightarrow> True | _ \<Rightarrow> False)"

section \<open>The mock of an interface\<close>

lemma length_synthesize [simp]:
  "length (synthesizeFieldNamesIfMissing fl) = length fl"
  by (simp add: synthesizeFieldNamesIfMissing_def)

lemma nth_synthesize:
  "i < length fl \<Longrightarrow>
   synthesizeFieldNamesIfMissing fl ! i =
     (if Names (fl ! i) = [] then Field [''v'' @ itoa i] (Type (fl ! i)) else fl ! i)"
  by (simp add: synthesizeFieldNamesIfMissing_def nth_enumerate_eq)

lemma synthesize_named:
  "f \<in> set (synthesizeFieldNamesIfMissing fl) \<Longrightarrow> Names f \<noteq> []"
  by (auto simp: in_set_conv_nth nth_synthesize split: if_splits)

lemma synthesize_id:
  "\<forall>f\<in>set fl. Names f \<noteq> [] \<Longrightarrow> synthesizeFieldNamesIfMissing fl = fl"
  by (rule nth_equalityI) (simp_all add: nth_synthesize)

lemma synthesize_idem [simp]:
  "synthesizeFieldNamesIfMissing (synthesizeFieldNamesIfMissing fl) = synthesizeFieldNamesIfMissing fl"
  by (rule synthesize_id) (auto dest: synthesize_named)

lemma named_idem [simp]: "named (named ft) = named ft"
  by (simp add: named_def)

lemma methFieldsOf_eq:
  "\<forall>f\<in>set ms. isFuncField f \<longrightarrow> Names f \<noteq> [] \<Longrightarrow>
   methFieldsOf ms =
     Inr (map (\<lambda>f. Field [hd (Names f) @ ''_''] (Type f)) (filter isFuncField ms))"
  by (induction ms) (auto simp: isFuncField_def split: Expr.splits list.splits)

lemma methDecls_svc_eq:
  "\<forall>f\<in>set ms. isFuncField f \<longrightarrow> Names f \<noteq> [] \<Longrightarrow>
   methDecls_svc T ms h =
     Inr (map (\<lambda>f. delegate T (hd (Names f)) (methRef f) (Params (h (methRef f))))
              (filter isFuncField ms))"
  by (induction ms) (auto simp: isFuncField_def methRef_def split: Expr.splits list.splits)

lemma methDecls_eq:
  "\<forall>f\<in>set ms. isFuncField f \<longrightarrow> Names f \<noteq> [] \<Longrightarrow>
   methDecls T ms h =
     Inr (map (\<lambda>f. delegate T (hd (Names f)) (methRef f) (Params (named (h (methRef f)))))
              (filter isFuncField ms),
          (\<lambda>r. if r \<in> methRef ` set (filter isFuncField ms) then named (h r) else h r))"
proof (induction ms arbitrary: h)
  case Nil
  then show ?case by simp
next
  case (Cons f ms)
  show ?case
  proof (cases "isFuncField f")
    case False
    with Cons show ?thesis
      by (auto simp: isFuncField_def split: Expr.splits)
  next
    case True
    then obtain r where r: "Type f = FuncTypeP r"
      by (auto simp: isFuncField_def split: Expr.splits)
    from True Cons.prems obtain name ns where n: "Names f = name # ns"
      by (cases "Names f") auto
    let ?h1 = "h(r := named (h r))"
    have IH: "methDecls T ms ?h1 =
      Inr (map (\<lambda>f. delegate T (hd (Names f)) (methRef f) (Params (named (?h1 (methRef f)))))
              (filter isFuncField ms),
          (\<lambda>x. if x \<in> methRef ` set (filter isFuncField ms) then named (?h1 x) else ?h1 x))"
      by (rule Cons.IH) (use Cons.prems in simp)
    have c: "methRef f = r" using r by (simp add: methRef_def)
    have b: "(\<lambda>x. if x \<in> methRef ` set (filter isFuncField ms) then named (?h1 x) else ?h1 x) =
             (\<lambda>x. if x \<in> methRef ` set (filter isFuncField (f # ms)) then named (h x) else h x)"
      using True c by (auto simp: fun_eq_iff)
    have "methDecls T (f # ms) h =
            (case methDecls T ms ?h1 of
               Inl e \<Rightarrow> Inl e
             | Inr (decls, h2) \<Rightarrow> Inr (delegate T name r (Params (named (h r))) # decls, h2))"
      using r n by (simp add: named_def Let_def split: sum.split)
    also have "\<dots> =
       Inr (delegate T name r (Params (named (h r))) #
            map (\<lambda>f. delegate T (hd (Names f)) (methRef f) (Params (named (?h1 (methRef f)))))
              (filter isFuncField ms),
            (\<lambda>x. if x \<in> methRef ` set (filter isFuncField (f # ms)) then named (h x) else h x))"
      unfolding IH b by simp
    also have "\<dots> =
       Inr (map (\<lambda>f. delegate T (hd (Names f)) (methRef f) (Params (named (h (methRef f)))))
              (filter isFuncField (f # ms)),
            (\<lambda>x. if x \<in> methRef ` set (filter isFuncField (f # ms)) then named (h x) else h x))"
      using True n c by simp
    finally show ?thesis .
  qed
qed

lemma itoa_0: "itoa 0 = ''0''"
  by (simp add: itoa.simps [of 0] digit_def)

lemma itoa_12: "itoa 12 = ''12''"
  by (simp add: itoa.simps [of 12] itoa.simps [of "Suc 0"] digit_def)

lemma mockDecls_eq:
  assumes "SpecType iface = InterfaceType ms"
      and "\<forall>f\<in>set ms. isFuncField f \<longrightarrow> Names f \<noteq> []"
  shows "mockDecls iface h =
     Inr (implType (''Mock'' @ Name iface)
            (map (\<lambda>f. Field [hd (Names f) @ ''_''] (Type f)) (filter isFuncField ms)) #
          map (\<lambda>f. delegate (''Mock'' @ Name iface) (hd (Names f)) (methRef f)
                     (Params (named (h (methRef f)))))
              (filter isFuncField ms),
          (\<lambda>r. if r \<in> methRef ` set (filter isFuncField ms) then named (h r) else h r))"
  unfolding mockDecls_def assms(1) Let_def
  by (simp only: methFieldsOf_eq [OF assms(2)] methDecls_eq [OF assms(2)]
        Expr.case sum.case prod.case)

lemma mockDecls_svc_eq:
  assumes "SpecType iface = InterfaceType ms"
      and "\<forall>f\<in>set ms. isFuncField f \<longrightarrow> Names f \<noteq> []"
  shows "mockDecls_svc iface h =
     Inr (implType (''Mock'' @ Name iface)
            (map (\<lambda>f. Field [hd (Names f) @ ''_''] (Type f)) (filter isFuncField ms)) #
          map (\<lambda>f. delegate (''Mock'' @ Name iface) (hd (Names f)) (methRef f)
                     (Params (h (methRef f))))
              (filter isFuncField ms))"
  unfolding mockDecls_svc_def assms(1) Let_def
  by (simp only: methFieldsOf_eq [OF assms(2)] methDecls_svc_eq [OF assms(2)]
        Expr.case sum.case)













lemma Checker_mockDecls:
  "mockDecls Checker CheckerNodes =
     Inr ([GenDecl TokTYPE [TypeSpecS (TypeSpec ''MockChecker''
            (StructType [Field [''Check_''] (FuncTypeP 0)]) [])],
          FuncDecl [Field [''s''] (StarExpr (Ident ''MockChecker''))] ''Check'' 0
            [ReturnStmt [CallExpr (SelectorExpr (Ident ''s'') ''Check_'') [Ident ''v0'']]]],
         CheckerNodes(0 := \<lparr>Params = [Field [''v0''] (Ident ''bool'')],
                              Results = [Field [] (Ident ''error'')]\<rparr>))"
  by (simp add: mockDecls_def Checker_def CheckerNodes_def noNodes_def Let_def
        synthesizeFieldNamesIfMissing_def itoa_0 delegate_def implType_def
        fieldListToIdentList_def)


lemma methFieldsOf_filter: "methFieldsOf (filter isFuncField ms) = methFieldsOf ms"
  by (induction ms) (auto simp: isFuncField_def split: Expr.splits list.splits sum.splits)

lemma methDecls_filter: "methDecls T (filter isFuncField ms) h = methDecls T ms h"
  by (induction ms arbitrary: h)
     (auto simp: isFuncField_def Let_def split: Expr.splits list.splits sum.splits)

lemma methDecls_svc_filter: "methDecls_svc T (filter isFuncField ms) h = methDecls_svc T ms h"
  by (induction ms) (auto simp: isFuncField_def split: Expr.splits list.splits sum.splits)

text \<open>
  C5, as the code has it. An entry of the method list whose type is not a function type
  is skipped, in both variants: the declarations are those of the interface without the
  entry, and no error comes of it. (What fails is a method entry without a name, by a
  panic; the hypothesis excludes it.)
\<close>

theorem C5_entries_skipped:
  assumes "\<forall>f\<in>set ms. isFuncField f \<longrightarrow> Names f \<noteq> []"
  shows "mockDecls (TypeSpec n (InterfaceType ms) fn) h =
           mockDecls (TypeSpec n (InterfaceType (filter isFuncField ms)) fn) h \<and>
         mockDecls_svc (TypeSpec n (InterfaceType ms) fn) h =
           mockDecls_svc (TypeSpec n (InterfaceType (filter isFuncField ms)) fn) h \<and>
         (\<exists>decls h'. mockDecls (TypeSpec n (InterfaceType ms) fn) h = Inr (decls, h')) \<and>
         (\<exists>decls. mockDecls_svc (TypeSpec n (InterfaceType ms) fn) h = Inr decls)"
proof (intro conjI)
  show "mockDecls (TypeSpec n (InterfaceType ms) fn) h =
           mockDecls (TypeSpec n (InterfaceType (filter isFuncField ms)) fn) h"
    by (simp add: mockDecls_def methFieldsOf_filter methDecls_filter Let_def split: sum.split)
  show "mockDecls_svc (TypeSpec n (InterfaceType ms) fn) h =
           mockDecls_svc (TypeSpec n (InterfaceType (filter isFuncField ms)) fn) h"
    by (simp add: mockDecls_svc_def methFieldsOf_filter methDecls_svc_filter Let_def split: sum.split)
  have s: "SpecType (TypeSpec n (InterfaceType ms) fn) = InterfaceType ms"
    by simp
  show "\<exists>decls h'. mockDecls (TypeSpec n (InterfaceType ms) fn) h = Inr (decls, h')"
    unfolding mockDecls_eq [OF s assms] by blast
  show "\<exists>decls. mockDecls_svc (TypeSpec n (InterfaceType ms) fn) h = Inr decls"
    unfolding mockDecls_svc_eq [OF s assms] by blast
qed

text \<open>
  C5 as stated fails on \<open>ReadCloser\<close>: both variants build the mock from \<^verbatim>\<open>Close\<close> alone,
  and the pass over it returns no error.
\<close>

theorem C5_counterexample:
  "map_sum id fst (mockDecls ReadCloser ReadCloserNodes) =
     Inr [GenDecl TokTYPE [TypeSpecS (TypeSpec ''MockReadCloser''
            (StructType [Field [''Close_''] (FuncTypeP 1)]) [])],
          FuncDecl [Field [''s''] (StarExpr (Ident ''MockReadCloser''))] ''Close'' 1
            [ReturnStmt [CallExpr (SelectorExpr (Ident ''s'') ''Close_'') []]]] \<and>
   mockDecls_svc ReadCloser ReadCloserNodes =
     Inr [GenDecl TokTYPE [TypeSpecS (TypeSpec ''MockReadCloser''
            (StructType [Field [''Close_''] (FuncTypeP 1)]) [])],
          FuncDecl [Field [''s''] (StarExpr (Ident ''MockReadCloser''))] ''Close'' 1
            [ReturnStmt [CallExpr (SelectorExpr (Ident ''s'') ''Close_'') []]]] \<and>
   fst (writeMockImplFiles exampleEnv False ''out'' ''pkg'' [ReadCloser] (world0 ReadCloserNodes)) = None \<and>
   fst (writeMockImplFiles_svc exampleEnv False ''example.com/pkg'' ''out'' ''pkg'' [ReadCloser]
          (world0 ReadCloserNodes)) = None"
  by (simp add: mockDecls_def mockDecls_svc_def ReadCloser_def ReadCloserNodes_def noNodes_def
        Let_def synthesizeFieldNamesIfMissing_def delegate_def implType_def
        fieldListToIdentList_def writeMockImplFiles_def writeMockImplFiles_svc_def
        writeMockImplFile_def writeMockImplFile_svc_def emit_def exampleEnv_def world0_def
        Write_def outFilename_def)

theorem C5_entries_skipped_witness:
  "list_all (\<lambda>f. \<not> isFuncField f \<or> Names f \<noteq> [])
     [Field [] (SelectorExpr (Ident ''io'') ''Reader''), Field [''Close''] (FuncTypeP 1)] \<and>
   mockDecls ReadCloser ReadCloserNodes =
     mockDecls (TypeSpec ''ReadCloser'' (InterfaceType [Field [''Close''] (FuncTypeP 1)]) ''rc.go'')
       ReadCloserNodes \<and>
   (\<exists>decls. mockDecls_svc ReadCloser ReadCloserNodes = Inr decls)"
proof -
  let ?ms = "[Field [] (SelectorExpr (Ident ''io'') ''Reader''), Field [''Close''] (FuncTypeP 1)]"
  have a: "\<forall>f\<in>set ?ms. isFuncField f \<longrightarrow> Names f \<noteq> []"
    by (simp add: isFuncField_def)
  have f: "filter isFuncField ?ms = [Field [''Close''] (FuncTypeP 1)]"
    by (simp add: isFuncField_def)
  note t = C5_entries_skipped [OF a, of "''ReadCloser''" "''rc.go''" ReadCloserNodes, unfolded f]
  show ?thesis
    unfolding ReadCloser_def
  proof (intro conjI)
    show "list_all (\<lambda>f. \<not> isFuncField f \<or> Names f \<noteq> []) ?ms"
      by (simp add: isFuncField_def)
  qed (rule t [THEN conjunct1], rule t [THEN conjunct2, THEN conjunct2, THEN conjunct2])
qed

lemma named_id: "list_all (\<lambda>p. Names p \<noteq> []) (Params ft) \<Longrightarrow> named ft = ft"
  by (simp add: named_def synthesize_id list_all_iff)

lemma methDecls_named:
  "list_all (\<lambda>m. case Type m of
                    FuncTypeP meth \<Rightarrow> list_all (\<lambda>p. Names p \<noteq> []) (Params (h meth))
                  | _ \<Rightarrow> True) ms \<Longrightarrow>
   methDecls T ms h = map_sum id (\<lambda>decls. (decls, h)) (methDecls_svc T ms h)"
proof (induction ms)
  case Nil
  then show ?case by simp
next
  case (Cons m ms)
  show ?case
  proof (cases "Type m")
    case (FuncTypeP meth)
    with Cons.prems have "named (h meth) = h meth"
      by (simp add: named_id)
    then have "h(meth := (h meth)\<lparr>Params := synthesizeFieldNamesIfMissing (Params (h meth))\<rparr>) = h"
      by (simp add: named_def)
    with FuncTypeP Cons show ?thesis
      by (simp split: list.split sum.split)
  qed (use Cons in simp_all)
qed

lemma mockDecls_named:
  "paramsNamed h iface \<Longrightarrow>
   mockDecls iface h = map_sum id (\<lambda>decls. (decls, h)) (mockDecls_svc iface h)"
  by (cases "SpecType iface")
     (simp_all add: paramsNamed_def mockDecls_def mockDecls_svc_def methDecls_named Let_def
        split: sum.split)

lemma nodes_Write [simp]: "nodes (snd (Write env wr src w)) = nodes w"
  by (simp add: Write_def split: option.split Writer.split)

lemma nodes_emit [simp]: "nodes (snd (emit env wflag filename file w)) = nodes w"
  by (simp add: emit_def Let_def split: option.split sum.split)

lemma emit_AddImport:
  "emit (env\<lparr>Fprint := \<lambda>h file. Fprint env h (AddImport env importPath file)\<rparr>) wflag filename file w =
   emit env wflag filename (AddImport env importPath file) w"
  by (simp add: emit_def Write_def Let_def split: sum.split option.split prod.split)

lemma outFilename_Fprint [simp]:
  "outFilename (env\<lparr>Fprint := p\<rparr>) dir iface = outFilename env dir iface"
  by (simp add: outFilename_def)

lemma writeMockImplFile_named:
  "paramsNamed (nodes w) iface \<Longrightarrow>
   writeMockImplFile_svc env wflag importPath dir pkgName iface w =
   writeMockImplFile (env\<lparr>Fprint := \<lambda>h file. Fprint env h (AddImport env importPath file)\<rparr>)
     wflag dir pkgName iface w"
  by (simp add: writeMockImplFile_def writeMockImplFile_svc_def mockDecls_named emit_AddImport
        split: sum.split)

lemma nodes_writeMockImplFile_svc [simp]:
  "nodes (snd (writeMockImplFile_svc env wflag importPath dir pkgName iface w)) = nodes w"
  by (simp add: writeMockImplFile_svc_def split: sum.split)

lemma forIfaces_named:
  "list_all (paramsNamed (nodes w)) ifaces \<Longrightarrow>
   forIfaces (writeMockImplFile_svc env wflag importPath dir pkgName) ifaces w =
   forIfaces (writeMockImplFile
                (env\<lparr>Fprint := \<lambda>h file. Fprint env h (AddImport env importPath file)\<rparr>)
                wflag dir pkgName) ifaces w"
proof (induction ifaces arbitrary: w)
  case Nil
  then show ?case by simp
next
  case (Cons iface ifaces)
  let ?r = "writeMockImplFile_svc env wflag importPath dir pkgName iface w"
  have e: "writeMockImplFile
             (env\<lparr>Fprint := \<lambda>h file. Fprint env h (AddImport env importPath file)\<rparr>)
             wflag dir pkgName iface w = ?r"
    using Cons.prems by (simp add: writeMockImplFile_named)
  have "nodes (snd ?r) = nodes w"
    by simp
  with Cons.prems have "list_all (paramsNamed (nodes (snd ?r))) ifaces"
    by simp
  from Cons.IH [OF this] show ?case
    unfolding forIfaces.simps e by (cases ?r) (simp split: option.split)
qed

text \<open>
  C4, as the code has it. For interfaces whose methods name all their parameters, the
  two variants build the same declarations and leave the nodes as they are, and a pass of
  \<^verbatim>\<open>gen_mocks.go\<close> is the pass of the other variant with a printer that sees each file
  after \<^verbatim>\<open>astutil.AddImport\<close>: same result, log, output, files and directories.
\<close>

theorem C4_same_when_named:
  assumes "list_all (paramsNamed (nodes w)) ifaces"
  shows "list_all (\<lambda>iface. mockDecls iface (nodes w) =
            map_sum id (\<lambda>decls. (decls, nodes w)) (mockDecls_svc iface (nodes w))) ifaces \<and>
         writeMockImplFiles_svc env wflag importPath dir pkgName ifaces w =
         writeMockImplFiles
           (env\<lparr>Fprint := \<lambda>h file. Fprint env h (AddImport env importPath file)\<rparr>)
           wflag dir pkgName ifaces w"
proof
  show "list_all (\<lambda>iface. mockDecls iface (nodes w) =
            map_sum id (\<lambda>decls. (decls, nodes w)) (mockDecls_svc iface (nodes w))) ifaces"
    using assms by (simp add: list_all_iff mockDecls_named)
  have "list_all (paramsNamed (nodes (w\<lparr>dirs := insert dir (dirs w)\<rparr>))) ifaces"
    using assms by simp
  from forIfaces_named [OF this] show
    "writeMockImplFiles_svc env wflag importPath dir pkgName ifaces w =
     writeMockImplFiles
       (env\<lparr>Fprint := \<lambda>h file. Fprint env h (AddImport env importPath file)\<rparr>)
       wflag dir pkgName ifaces w"
    by (simp add: writeMockImplFiles_def writeMockImplFiles_svc_def split: option.split)
qed

lemma Checker_mockDecls_svc:
  "mockDecls_svc Checker CheckerNodes =
     Inr [GenDecl TokTYPE [TypeSpecS (TypeSpec ''MockChecker''
            (StructType [Field [''Check_''] (FuncTypeP 0)]) [])],
          FuncDecl [Field [''s''] (StarExpr (Ident ''MockChecker''))] ''Check'' 0
            [ReturnStmt [CallExpr (SelectorExpr (Ident ''s'') ''Check_'') []]]]"
  by (simp add: mockDecls_svc_def Checker_def CheckerNodes_def noNodes_def Let_def
        delegate_def implType_def fieldListToIdentList_def)

text \<open>
  C4 as stated fails on \<open>Checker\<close>, whose method has an unnamed parameter:
  \<^verbatim>\<open>gen_mocks.go\<close> declares \<^verbatim>\<open>Check(bool) error { return s.Check_() }\<close>, the other variant
  \<^verbatim>\<open>Check(v0 bool) error { return s.Check_(v0) }\<close>.
\<close>

theorem C4_counterexample:
  "mockDecls_svc Checker CheckerNodes =
     Inr [GenDecl TokTYPE [TypeSpecS (TypeSpec ''MockChecker''
            (StructType [Field [''Check_''] (FuncTypeP 0)]) [])],
          FuncDecl [Field [''s''] (StarExpr (Ident ''MockChecker''))] ''Check'' 0
            [ReturnStmt [CallExpr (SelectorExpr (Ident ''s'') ''Check_'') []]]] \<and>
   map_sum id fst (mockDecls Checker CheckerNodes) =
     Inr [GenDecl TokTYPE [TypeSpecS (TypeSpec ''MockChecker''
            (StructType [Field [''Check_''] (FuncTypeP 0)]) [])],
          FuncDecl [Field [''s''] (StarExpr (Ident ''MockChecker''))] ''Check'' 0
            [ReturnStmt [CallExpr (SelectorExpr (Ident ''s'') ''Check_'') [Ident ''v0'']]]] \<and>
   map_sum id fst (mockDecls Checker CheckerNodes) \<noteq> mockDecls_svc Checker CheckerNodes \<and>
   Params (snd (projr (mockDecls Checker CheckerNodes)) 0) \<noteq> Params (CheckerNodes 0)"
  by (simp add: Checker_mockDecls Checker_mockDecls_svc) (simp add: CheckerNodes_def)

theorem C4_same_when_named_witness:
  "list_all (paramsNamed (nodes (world0 FetcherNodes))) [Fetcher, ReadCloser] \<and>
   mockDecls_svc Fetcher FetcherNodes =
     Inr [GenDecl TokTYPE [TypeSpecS (TypeSpec ''MockFetcher''
            (StructType [Field [''Get_''] (FuncTypeP 2)]) [])],
          FuncDecl [Field [''s''] (StarExpr (Ident ''MockFetcher''))] ''Get'' 2
            [ReturnStmt [CallExpr (SelectorExpr (Ident ''s'') ''Get_'') [Ident ''id'']]]] \<and>
   mockDecls Fetcher FetcherNodes =
     map_sum id (\<lambda>decls. (decls, FetcherNodes)) (mockDecls_svc Fetcher FetcherNodes) \<and>
   writeMockImplFiles_svc exampleEnv True ''example.com/pkg'' ''out'' ''pkg'' [Fetcher, ReadCloser]
     (world0 FetcherNodes) =
   writeMockImplFiles
     (exampleEnv\<lparr>Fprint := \<lambda>h file. Fprint exampleEnv h (AddImport exampleEnv ''example.com/pkg'' file)\<rparr>)
     True ''out'' ''pkg'' [Fetcher, ReadCloser] (world0 FetcherNodes)"
proof -
  have a: "list_all (paramsNamed (nodes (world0 FetcherNodes))) [Fetcher, ReadCloser]"
    by (simp add: paramsNamed_def Fetcher_def ReadCloser_def world0_def FetcherNodes_def
          ReadCloserNodes_def)
  have n: "nodes (world0 FetcherNodes) = FetcherNodes"
    by (simp add: world0_def)
  have s: "mockDecls_svc Fetcher FetcherNodes =
     Inr [GenDecl TokTYPE [TypeSpecS (TypeSpec ''MockFetcher''
            (StructType [Field [''Get_''] (FuncTypeP 2)]) [])],
          FuncDecl [Field [''s''] (StarExpr (Ident ''MockFetcher''))] ''Get'' 2
            [ReturnStmt [CallExpr (SelectorExpr (Ident ''s'') ''Get_'') [Ident ''id'']]]]"
    by (simp add: mockDecls_svc_def Fetcher_def FetcherNodes_def Let_def
          delegate_def implType_def fieldListToIdentList_def)
  note t = C4_same_when_named [OF a, of exampleEnv True "''example.com/pkg''" "''out''" "''pkg''",
      unfolded n]
  have "mockDecls Fetcher FetcherNodes =
     map_sum id (\<lambda>decls. (decls, FetcherNodes)) (mockDecls_svc Fetcher FetcherNodes)"
    using t by simp
  with a s t show ?thesis
    by (intro conjI) (assumption, assumption, assumption, rule conjunct2)
qed

section \<open>Output, errors and selection\<close>

lemma forIfaces_preserves:
  assumes "\<And>iface w. f (snd (body iface w)) = f w"
  shows "f (snd (forIfaces body ifaces w)) = f w"
proof (induction ifaces arbitrary: w)
  case Nil
  then show ?case by simp
next
  case (Cons iface ifaces)
  show ?case
  proof (cases "body iface w")
    case (Pair r w')
    then have "f w' = f w"
      using assms [of iface w] by simp
    with Pair Cons.IH [of w'] show ?thesis
      by (cases r) simp_all
  qed
qed

lemma dirs_Write [simp]: "dirs (snd (Write env wr src w)) = dirs w"
  by (simp add: Write_def split: option.split Writer.split)

lemma dirs_emit [simp]: "dirs (snd (emit env wflag filename file w)) = dirs w"
  by (simp add: emit_def Let_def split: option.split sum.split)

lemma files_emit_preview [simp]: "files (snd (emit env False filename file w)) = files w"
  by (simp add: emit_def Let_def Write_def split: option.split sum.split)

lemma logOut_Write [simp]: "logOut (snd (Write env wr src w)) = logOut w"
  by (simp add: Write_def split: option.split Writer.split)

lemma logOut_emit:
  "logOut (snd (emit env wflag filename file w)) = logOut w @ [''# '' @ filename]"
  by (simp add: emit_def Let_def split: option.split sum.split)

lemma dirs_writeMockImplFile [simp]:
  "dirs (snd (writeMockImplFile env wflag dir pkg iface w)) = dirs w"
  by (simp add: writeMockImplFile_def split: sum.split)

lemma dirs_writeMockImplFile_svc [simp]:
  "dirs (snd (writeMockImplFile_svc env wflag ip dir pkg iface w)) = dirs w"
  by (simp add: writeMockImplFile_svc_def split: sum.split)

lemma files_writeMockImplFile_preview [simp]:
  "files (snd (writeMockImplFile env False dir pkg iface w)) = files w"
  by (simp add: writeMockImplFile_def split: sum.split)

lemma files_writeMockImplFile_svc_preview [simp]:
  "files (snd (writeMockImplFile_svc env False ip dir pkg iface w)) = files w"
  by (simp add: writeMockImplFile_svc_def split: sum.split)

lemma files_preview:
  "files (snd (writeMockImplFiles env False dir pkg ifaces w)) = files w"
  "files (snd (writeMockImplFiles_svc env False ip dir pkg ifaces w)) = files w"
  by (simp_all add: writeMockImplFiles_def writeMockImplFiles_svc_def
        forIfaces_preserves [where f = files] split: option.split)



text \<open>
  C9, as the code has it. For a file that the printer and the import resolver accept,
  without \<^verbatim>\<open>-w\<close> the loop body writes the line \<^verbatim>\<open># <path>\<close> through the logger (to
  standard error) and the rendered bytes, alone, to standard output; with \<^verbatim>\<open>-w\<close> it
  writes the same line through the logger. A pass without \<^verbatim>\<open>-w\<close> changes no file, in
  either variant.
\<close>

theorem C9_preview_output:
  assumes "Fprint env (nodes w) file = Inr buf"
      and "Process env filename
             (Replace buf (''}'' @ [CHR 0x0A] @ ''func'') (''}'' @ [CHR 0x0A, CHR 0x0A] @ ''func'')) =
           Inr src"
      and "WriteErr env Stdout src = None"
  shows "emit env False filename file w =
           (None, w\<lparr>logOut := logOut w @ [''# '' @ filename], stdout := stdout w @ src\<rparr>) \<and>
         logOut (snd (emit env True filename file w)) = logOut w @ [''# '' @ filename] \<and>
         files (snd (writeMockImplFiles env False dir pkg ifaces w0)) = files w0 \<and>
         files (snd (writeMockImplFiles_svc env False ip dir pkg ifaces w0)) = files w0"
  using assms by (simp add: files_preview logOut_emit) (simp add: emit_def Write_def)

lemma outFilename_Checker: "outFilename exampleEnv ''out'' Checker = ''out/check_mock.go''"
  by (simp add: outFilename_def exampleEnv_def Checker_def TrimSuffix_def HasSuffix_def)

lemma outFilename_ReadCloser: "outFilename exampleEnv ''out'' ReadCloser = ''out/rc_mock.go''"
  by (simp add: outFilename_def exampleEnv_def ReadCloser_def TrimSuffix_def HasSuffix_def)

lemma outFilename_diskFull [simp]: "outFilename diskFull d iface = outFilename exampleEnv d iface"
  by (simp add: outFilename_def diskFull_def)

lemma Replace_absent:
  "CHR ''}'' \<notin> set s \<Longrightarrow> Replace s (CHR ''}'' # old) new = s"
proof (induction s)
  case Nil
  then show ?case by (simp add: Replace.simps)
next
  case (Cons c s)
  then show ?case by (auto simp: Replace.simps [of "c # s"])
qed

lemma Replace_package:
  "Replace (''package '' @ name @ [CHR 0x0A]) (''}'' @ [CHR 0x0A] @ ''func'') new =
     ''package '' @ name @ [CHR 0x0A]" if "CHR ''}'' \<notin> set name"
  using that Replace_absent [of "''package '' @ name @ [CHR 0x0A]" "[CHR 0x0A] @ ''func''" new]
  by simp

lemma ReadCloser_mockDecls:
  "mockDecls ReadCloser h =
     Inr ([GenDecl TokTYPE [TypeSpecS (TypeSpec ''MockReadCloser''
            (StructType [Field [''Close_''] (FuncTypeP 1)]) [])],
          delegate ''MockReadCloser'' ''Close'' 1 (Params (named (h 1)))],
          h(1 := named (h 1)))"
  by (simp add: mockDecls_def ReadCloser_def Let_def implType_def named_def)

lemma Checker_mockDecls_any:
  "mockDecls Checker h =
     Inr ([GenDecl TokTYPE [TypeSpecS (TypeSpec ''MockChecker''
            (StructType [Field [''Check_''] (FuncTypeP 0)]) [])],
          delegate ''MockChecker'' ''Check'' 0 (Params (named (h 0)))],
          h(0 := named (h 0)))"
  by (simp add: mockDecls_def Checker_def Let_def implType_def named_def)

text \<open>
  C9 as stated fails on a pass over \<open>Checker\<close> without \<^verbatim>\<open>-w\<close>: standard output holds
  the rendered file and no \<^verbatim>\<open>#\<close> line; that line is in the log.
\<close>

theorem C9_counterexample:
  "stdout (snd (writeMockImplFiles exampleEnv False ''out'' ''pkg'' [Checker] (world0 CheckerNodes))) =
     ''package pkg'' @ [CHR 0x0A] \<and>
   logOut (snd (writeMockImplFiles exampleEnv False ''out'' ''pkg'' [Checker] (world0 CheckerNodes))) =
     [''# out/check_mock.go'']"
proof -
  have "writeMockImplFile exampleEnv False ''out'' ''pkg'' Checker w =
          (None, w\<lparr>nodes := (nodes w)(0 := named (nodes w 0)),
                    logOut := logOut w @ [''# out/check_mock.go''],
                    stdout := stdout w @ ''package pkg'' @ [CHR 0x0A]\<rparr>)" for w
    unfolding writeMockImplFile_def Checker_mockDecls_any outFilename_Checker
    by (simp add: emit_def exampleEnv_def Replace_package [of "''pkg''", simplified] Write_def)
  then show ?thesis
    by (simp add: writeMockImplFiles_def exampleEnv_def world0_def)
qed

theorem C9_preview_output_witness:
  "Fprint exampleEnv CheckerNodes \<lparr>PkgIdent = ''pkg'', Decls = []\<rparr> = Inr (''package pkg'' @ [CHR 0x0A]) \<and>
   emit exampleEnv False ''out/check_mock.go'' \<lparr>PkgIdent = ''pkg'', Decls = []\<rparr> (world0 CheckerNodes) =
     (None, \<lparr>nodes = CheckerNodes, logOut = [''# out/check_mock.go''],
             stdout = ''package pkg'' @ [CHR 0x0A], files = Map.empty, dirs = {}\<rparr>) \<and>
   files (snd (writeMockImplFiles exampleEnv False ''out'' ''pkg'' [Checker] (world0 CheckerNodes))) =
     Map.empty"
proof -
  have a: "Fprint exampleEnv (nodes (world0 CheckerNodes)) \<lparr>PkgIdent = ''pkg'', Decls = []\<rparr> =
             Inr (''package pkg'' @ [CHR 0x0A])"
    by (simp add: exampleEnv_def)
  have b: "Process exampleEnv ''out/check_mock.go''
             (Replace (''package pkg'' @ [CHR 0x0A]) (''}'' @ [CHR 0x0A] @ ''func'')
                (''}'' @ [CHR 0x0A, CHR 0x0A] @ ''func'')) = Inr (''package pkg'' @ [CHR 0x0A])"
    by (simp add: exampleEnv_def Replace_package [of "''pkg''", simplified])
  have c: "WriteErr exampleEnv Stdout (''package pkg'' @ [CHR 0x0A]) = None"
    by (simp add: exampleEnv_def)
  from C9_preview_output [OF a b c, of "''out''" "''pkg''" "[Checker]" "world0 CheckerNodes"]
  show ?thesis
    by (simp add: world0_def exampleEnv_def)
qed

text \<open>
  C7 fails on the code: with \<^verbatim>\<open>-w\<close>, where \<^verbatim>\<open>os.Create\<close> succeeds and every write fails,
  the pass over \<open>Checker\<close> and \<open>ReadCloser\<close> returns no error, goes on to the second
  interface after the failed write of the first, and leaves both files empty.
\<close>

theorem C7_write_error_dropped:
  "fst (writeMockImplFiles diskFull True ''out'' ''pkg'' [Checker, ReadCloser]
          (world0 ReadCloserNodes)) = None \<and>
   logOut (snd (writeMockImplFiles diskFull True ''out'' ''pkg'' [Checker, ReadCloser]
          (world0 ReadCloserNodes))) = [''# out/check_mock.go'', ''# out/rc_mock.go''] \<and>
   files (snd (writeMockImplFiles diskFull True ''out'' ''pkg'' [Checker, ReadCloser]
          (world0 ReadCloserNodes))) ''out/check_mock.go'' = Some [] \<and>
   files (snd (writeMockImplFiles diskFull True ''out'' ''pkg'' [Checker, ReadCloser]
          (world0 ReadCloserNodes))) ''out/rc_mock.go'' = Some []"
proof -
  have e: "emit diskFull True filename \<lparr>PkgIdent = ''pkg'', Decls = decls\<rparr> w =
          (None, w\<lparr>logOut := logOut w @ [''# '' @ filename],
                    files := (files w)(filename \<mapsto> [])\<rparr>)" for filename decls w
    by (simp add: emit_def diskFull_def exampleEnv_def Replace_package [of "''pkg''", simplified] Write_def)
  have m: "MkdirAll diskFull ''out'' = None"
    by (simp add: diskFull_def exampleEnv_def)
  have "writeMockImplFiles diskFull True ''out'' ''pkg'' [Checker, ReadCloser] w =
          (None, w\<lparr>dirs := insert ''out'' (dirs w),
                    nodes := (nodes w)(0 := named (nodes w 0), 1 := named (nodes w 1)),
                    logOut := logOut w @ [''# out/check_mock.go'', ''# out/rc_mock.go''],
                    files := (files w)(''out/check_mock.go'' \<mapsto> [], ''out/rc_mock.go'' \<mapsto> [])\<rparr>)"
    for w
    unfolding writeMockImplFiles_def writeMockImplFile_def forIfaces.simps
      Checker_mockDecls_any ReadCloser_mockDecls outFilename_diskFull
      outFilename_Checker outFilename_ReadCloser
    by (simp add: e m)
  then show ?thesis
    by (simp add: world0_def)
qed

lemma forSpecs_append:
  "forSpecs pat (xs @ ys) acc =
     (case forSpecs pat xs acc of Inl e \<Rightarrow> Inl e | Inr acc' \<Rightarrow> forSpecs pat ys acc')"
  by (induction xs arbitrary: acc) (auto split: Spec.splits Expr.splits)

lemma Walk_typeSpecs:
  "WalkDecl pat decl acc = forSpecs pat (typeSpecs decl) acc"
  "WalkStmt pat stmt acc = forSpecs pat (typeSpecsStmt stmt) acc"
  "WalkStmts pat stmts acc = forSpecs pat (typeSpecsStmts stmts) acc"
  by (induction pat decl acc and pat stmt acc and pat stmts acc
        rule: WalkDecl_WalkStmt_WalkStmts.induct)
     (simp_all add: forSpecs_append split: sum.split)

lemma WalkDecls_typeSpecs:
  "WalkDecls pat decls acc = forSpecs pat (concat (map typeSpecs decls)) acc"
  by (induction decls arbitrary: acc) (simp_all add: forSpecs_append Walk_typeSpecs split: sum.split)

lemma WalkFiles_typeSpecs:
  "WalkFiles pat fs acc =
     forSpecs pat (concat (map (\<lambda>f. concat (map typeSpecs (Decls f))) fs)) acc"
  by (induction fs arbitrary: acc) (simp_all add: forSpecs_append WalkDecls_typeSpecs split: sum.split)

lemma forSpecs_TypeSpecS:
  "forSpecs pat (map TypeSpecS ts) acc =
     Inr (acc @ filter (\<lambda>t. isInterface t \<and> pat (Name t)) ts)"
  by (induction ts arbitrary: acc) (auto simp: isInterface_def split: Expr.splits)



text \<open>
  C6. For a package whose type declarations hold no interface with a name that matches
  the pattern, the selector returns no interface, and the loop of \<^verbatim>\<open>main\<close> over the
  packages logs the warning, changes nothing else (no file, no output, no directory) and
  goes on with the remaining packages. (\<open>ts\<close> are the type specs of the package; a parsed
  type declaration holds type specs only.)
\<close>

theorem C6_no_match_warns_and_continues:
  assumes "typeSpecsOf pkg = map TypeSpecS ts"
      and "\<forall>t\<in>set ts. isInterface t \<longrightarrow> \<not> pat (Name t)"
  shows "readIfaces pkg pat = Inr [] \<and>
         forPkgs env fl pat (pkg # rest) w =
           forPkgs env fl pat rest
             (w\<lparr>logOut := logOut w @
                [''warning: package has no interface types matching '' @ Quote env (ifacePat fl)]\<rparr>)"
proof -
  have "filter (\<lambda>t. isInterface t \<and> pat (Name t)) ts = []"
    using assms(2) by (simp add: filter_empty_conv)
  then have "readIfaces pkg pat = Inr []"
    by (simp add: readIfaces_def WalkFiles_typeSpecs assms(1) [unfolded typeSpecsOf_def]
          forSpecs_TypeSpecS)
  then show ?thesis
    by simp
qed

theorem C6_no_match_warns_and_continues_witness:
  "typeSpecsOf LocalPkg = map TypeSpecS [TypeSpec ''LocalService'' (InterfaceType []) ''p.go''] \<and>
   readIfaces LocalPkg ((=) ''Checker'') = Inr [] \<and>
   main exampleEnv exampleFlags (world0 CheckerNodes) =
     forPkgs exampleEnv exampleFlags ((=) ''Checker'') [CheckerPkg]
       ((world0 CheckerNodes)\<lparr>logOut :=
          [''warning: package has no interface types matching '' @ [CHR 0x22] @ ''^Checker$'' @ [CHR 0x22]]\<rparr>) \<and>
   fst (main exampleEnv exampleFlags (world0 CheckerNodes)) = None \<and>
   logOut (snd (main exampleEnv exampleFlags (world0 CheckerNodes))) =
     [''warning: package has no interface types matching '' @ [CHR 0x22] @ ''^Checker$'' @ [CHR 0x22],
      ''# out/check_mock.go''] \<and>
   stdout (snd (main exampleEnv exampleFlags (world0 CheckerNodes))) = ''package check'' @ [CHR 0x0A]"
proof -
  let ?pat = "(=) ''Checker''"
  have h1: "typeSpecsOf LocalPkg =
              map TypeSpecS [TypeSpec ''LocalService'' (InterfaceType []) ''p.go'']"
    by (simp add: typeSpecsOf_def LocalPkg_def)
  have h2: "\<forall>t\<in>set [TypeSpec ''LocalService'' (InterfaceType []) ''p.go''].
              isInterface t \<longrightarrow> \<not> ?pat (Name t)"
    by simp
  have m: "main exampleEnv exampleFlags w =
           forPkgs exampleEnv exampleFlags ?pat [LocalPkg, CheckerPkg] w" for w
    by (simp add: main_def exampleEnv_def exampleFlags_def del: forPkgs.simps)
  have q: "Quote exampleEnv (ifacePat exampleFlags) = [CHR 0x22] @ ''^Checker$'' @ [CHR 0x22]"
    by (simp add: exampleEnv_def exampleFlags_def)
  note c = C6_no_match_warns_and_continues [OF h1 h2, of exampleEnv exampleFlags "[CheckerPkg]"
      "world0 CheckerNodes", unfolded q]
  note a = c [THEN conjunct1] and t = c [THEN conjunct2]
  have l: "logOut (world0 CheckerNodes) = []"
    by (simp add: world0_def)
  have r: "readIfaces CheckerPkg ?pat = Inr [Checker]"
    by (simp add: readIfaces_def CheckerPkg_def Checker_def)
  have one: "writeMockImplFile exampleEnv False ''out'' ''check'' Checker w =
          (None, w\<lparr>nodes := (nodes w)(0 := named (nodes w 0)),
                    logOut := logOut w @ [''# out/check_mock.go''],
                    stdout := stdout w @ ''package check'' @ [CHR 0x0A]\<rparr>)" for w
    unfolding writeMockImplFile_def Checker_mockDecls_any outFilename_Checker
    by (simp add: emit_def exampleEnv_def Replace_package [of "''check''", simplified] Write_def)
  have f: "MkdirAll exampleEnv ''out'' = None" "writeFiles exampleFlags = False"
    "outDir exampleFlags = ''out''" "PkgName CheckerPkg = ''check''"
    by (simp_all add: exampleEnv_def exampleFlags_def CheckerPkg_def)
  have e: "forPkgs exampleEnv exampleFlags ?pat [CheckerPkg] w =
          (None, w\<lparr>dirs := insert ''out'' (dirs w),
                    nodes := (nodes w)(0 := named (nodes w 0)),
                    logOut := logOut w @ [''# out/check_mock.go''],
                    stdout := stdout w @ ''package check'' @ [CHR 0x0A]\<rparr>)" for w
    by (simp add: r writeMockImplFiles_def one f)
  show ?thesis
    unfolding m t l e by (simp add: a h1) (simp add: world0_def)
qed

end
